theory Spec2Isabelle
  imports Complex_Main
begin

section \<open>JavaScript values as the server uses them\<close>

text \<open>
  The server (\<^verbatim>\<open>server/index.js\<close>) is a set of Express handlers over a JSON dataset that
  is loaded once. The embedding follows the JavaScript text expression by expression.
  \<^item> A value that may be \<^verbatim>\<open>undefined\<close> is an \<open>option\<close>; \<open>None\<close> is \<^verbatim>\<open>undefined\<close>.
  \<^item> Strings are lists of characters below 256. \<^verbatim>\<open>toLowerCase\<close> maps \<open>A\<close>..\<open>Z\<close> and the
    upper-case letters of Latin-1 to their lower-case letters.
  \<^item> Numbers are exact reals together with \<open>NaN\<close>: the rounding of IEEE doubles is not
    part of the model, so every statement about sums, quotients and products reads them
    as the exact operations.
  \<^item> An uncaught exception is a value: a handler that throws answers with status 500.
\<close>

subsection \<open>Strings\<close>

definition toLowerChar :: "char \<Rightarrow> char" where
  "toLowerChar c =
     (let n = (of_char c :: nat)
      in if (65 \<le> n \<and> n \<le> 90) \<or> (192 \<le> n \<and> n \<le> 222 \<and> n \<noteq> 215)
         then char_of (n + 32) else c)"

definition toLowerCase :: "string \<Rightarrow> string" where
  "toLowerCase s = map toLowerChar s"

text \<open>\<^verbatim>\<open>s.includes(t)\<close>: \<open>t\<close> occurs in \<open>s\<close> as a contiguous run.\<close>

fun is_prefix :: "string \<Rightarrow> string \<Rightarrow> bool" where
  "is_prefix [] s = True"
| "is_prefix (c # t) [] = False"
| "is_prefix (c # t) (d # s) = (c = d \<and> is_prefix t s)"

fun str_includes :: "string \<Rightarrow> string \<Rightarrow> bool" where
  "str_includes [] t = (t = [])"
| "str_includes (c # s) t = (is_prefix t (c # s) \<or> str_includes s t)"

text \<open>\<^verbatim>\<open>a || b\<close> where \<open>a\<close> is a string or \<^verbatim>\<open>undefined\<close>: the empty string is falsy.\<close>

definition or_string :: "string option \<Rightarrow> string \<Rightarrow> string" where
  "or_string a b = (case a of None \<Rightarrow> b | Some s \<Rightarrow> if s = [] then b else s)"

text \<open>Truthiness of a string or \<^verbatim>\<open>undefined\<close>, as \<^verbatim>\<open>if (a)\<close> and \<^verbatim>\<open>a && b\<close> test it.\<close>

definition truthy_string :: "string option \<Rightarrow> bool" where
  "truthy_string a = (case a of None \<Rightarrow> False | Some s \<Rightarrow> s \<noteq> [])"

subsection \<open>Property lookup on an object literal\<close>

text \<open>
  \<^verbatim>\<open>obj[key]\<close> on an object written as a literal reads an own property first and then the
  properties every such object inherits from \<^verbatim>\<open>Object.prototype\<close>. The inherited values
  are functions (and, for \<^verbatim>\<open>__proto__\<close>, the prototype object itself): all of them are
  truthy, none is an array, and none has a method \<^verbatim>\<open>includes\<close>.
\<close>

definition Object_prototype_keys :: "string list" where
  "Object_prototype_keys =
     [''constructor'', ''__defineGetter__'', ''__defineSetter__'', ''hasOwnProperty'',
      ''__lookupGetter__'', ''__lookupSetter__'', ''isPrototypeOf'',
      ''propertyIsEnumerable'', ''toString'', ''valueOf'', ''__proto__'',
      ''toLocaleString'']"

datatype 'a property = Own 'a | Inherited | Undefined

definition get_property :: "(string \<times> 'a) list \<Rightarrow> string \<Rightarrow> 'a property" where
  "get_property obj key =
     (case map_of obj key of
        Some v \<Rightarrow> Own v
      | None \<Rightarrow> if key \<in> set Object_prototype_keys then Inherited else Undefined)"

section \<open>Access control gate\<close>

definition ROLE_PERMISSIONS :: "(string \<times> string list) list" where
  "ROLE_PERMISSIONS =
     [(''admin'', [''view_overview'', ''view_sales'', ''view_maintenance'']),
      (''sales'', [''view_overview'', ''view_sales'']),
      (''technician'', [''view_overview'', ''view_maintenance''])]"

record user =
  role :: string
  permissions :: "string list"

text \<open>
  What the middleware does with a request: it answers itself (\<open>Reject\<close>, with the status
  code and the \<^verbatim>\<open>{message, role}\<close> payload), it calls \<^verbatim>\<open>next()\<close> after attaching
  \<^verbatim>\<open>req.user\<close> (\<open>Proceed\<close>), or it throws (\<open>Throws\<close>): calling the missing method
  \<^verbatim>\<open>includes\<close> of an inherited value is a \<^verbatim>\<open>TypeError\<close>.
\<close>

datatype fault = TypeError

datatype gate = Reject nat string string | Proceed user | Throws fault

definition authorize :: "string \<Rightarrow> string option \<Rightarrow> gate" where
  "authorize requiredPermission header =
     (let role = toLowerCase (or_string header ''sales'')
      in case get_property ROLE_PERMISSIONS role of
           Inherited \<Rightarrow> Throws TypeError
         | Own perms \<Rightarrow>
             if requiredPermission \<notin> set perms
             then Reject 403 ''Forbidden: insufficient permissions'' role
             else Proceed \<lparr>role = role, permissions = perms\<rparr>
         | Undefined \<Rightarrow>
             if requiredPermission \<notin> set []
             then Reject 403 ''Forbidden: insufficient permissions'' role
             else Proceed \<lparr>role = role, permissions = []\<rparr>)"

text \<open>
  A reply of the server: the 403 of the gate, the JSON body a handler sends with status
  200, or the status 500 Express sends for an exception nobody caught.
\<close>

datatype 'a reply = Forbidden nat string string | Sent 'a | Failed

text \<open>\<^verbatim>\<open>app.get(path, authorize(p), handler)\<close>: the handler runs only after \<^verbatim>\<open>next()\<close>.\<close>

definition protected :: "string \<Rightarrow> (user \<Rightarrow> 'a reply) \<Rightarrow> string option \<Rightarrow> 'a reply" where
  "protected requiredPermission handler header =
     (case authorize requiredPermission header of
        Reject code msg r \<Rightarrow> Forbidden code msg r
      | Throws e \<Rightarrow> Failed
      | Proceed u \<Rightarrow> handler u)"

section \<open>Numbers\<close>

text \<open>
  A number read from the dataset is a real; \<open>NaN\<close> arises when arithmetic meets
  \<^verbatim>\<open>undefined\<close>. \<open>Null\<close> is the \<^verbatim>\<open>null\<close> the mapper writes for a missing quotient.
\<close>

datatype number = NaN | Num real

datatype 'a nullable = Null | Value 'a

definition ToNumber :: "real option \<Rightarrow> number" where
  "ToNumber x = (case x of None \<Rightarrow> NaN | Some r \<Rightarrow> Num r)"

definition times_number :: "number \<Rightarrow> real \<Rightarrow> number" where
  "times_number x c = (case x of NaN \<Rightarrow> NaN | Num r \<Rightarrow> Num (r * c))"

text \<open>
  Division by a divisor that the caller has tested to be truthy, that is, a number other
  than zero (\<^verbatim>\<open>item.PROPERTYSQFT ? ... : null\<close>).
\<close>

definition divide_by :: "number \<Rightarrow> real \<Rightarrow> number" where
  "divide_by x d = (case x of NaN \<Rightarrow> NaN | Num r \<Rightarrow> Num (r / d))"

text \<open>\<^verbatim>\<open>Math.round\<close> rounds to the nearest integer, a half towards plus infinity.\<close>

definition Math_round :: "real \<Rightarrow> real" where
  "Math_round x = of_int \<lfloor>x + 1 / 2\<rfloor>"

definition Math_round_number :: "number \<Rightarrow> number" where
  "Math_round_number x = (case x of NaN \<Rightarrow> NaN | Num r \<Rightarrow> Num (Math_round r))"

text \<open>\<^verbatim>\<open>x > c\<close> where \<open>x\<close> may be \<^verbatim>\<open>undefined\<close> or \<open>NaN\<close>: both compare false.\<close>

definition greater :: "real option \<Rightarrow> real \<Rightarrow> bool" where
  "greater x c = (case x of None \<Rightarrow> False | Some r \<Rightarrow> r > c)"

definition greater_number :: "number \<Rightarrow> real \<Rightarrow> bool" where
  "greater_number x c = (case x of NaN \<Rightarrow> False | Num r \<Rightarrow> r > c)"

text \<open>Truthiness of numbers: \<^verbatim>\<open>undefined\<close>, \<^verbatim>\<open>null\<close>, \<open>NaN\<close> and \<open>0\<close> are falsy.\<close>

definition truthy_number :: "number nullable \<Rightarrow> bool" where
  "truthy_number x = (case x of Null \<Rightarrow> False | Value NaN \<Rightarrow> False | Value (Num r) \<Rightarrow> r \<noteq> 0)"

text \<open>\<^verbatim>\<open>x || 0\<close> for a number that may be \<^verbatim>\<open>undefined\<close>.\<close>

definition or_zero :: "real option \<Rightarrow> real" where
  "or_zero x = (case x of None \<Rightarrow> 0 | Some r \<Rightarrow> if r = 0 then 0 else r)"

text \<open>The decimal text of a natural number, as a template literal prints it.\<close>

fun decimal :: "nat \<Rightarrow> string" where
  "decimal n =
     (if n < 10 then [char_of (48 + n)]
      else decimal (n div 10) @ [char_of (48 + n mod 10)])"

section \<open>Entity mapper\<close>

text \<open>
  A raw record of the dataset. The data model types its fields: identifier, names,
  address and status are strings, price and square footage are numbers, and each of
  them may be missing. A missing field reads as \<^verbatim>\<open>undefined\<close>; a field written as
  \<^verbatim>\<open>null\<close> in the file is not part of the model.
\<close>

record raw_record =
  LISTINGID :: "string option"
  PROJECTNAME :: "string option"
  FULLADDRESS :: "string option"
  SUBLOCALITY :: "string option"
  PRICE :: "real option"
  PROPERTYSQFT :: "real option"
  STATUS :: "string option"

record unit_entity =
  unitId :: string
  projectName :: string
  address :: string
  subLocality :: "string option"
  price :: "real option"
  sqft :: "real option"
  pricePerSqft :: "number nullable"
  status :: string

definition toUnit :: "raw_record \<Rightarrow> nat \<Rightarrow> unit_entity" where
  "toUnit item index =
     \<lparr>unitId = or_string (LISTINGID item) (''UNIT-'' @ decimal (index + 1)),
      projectName =
        or_string (PROJECTNAME item) (or_string (SUBLOCALITY item) ''Unknown Project''),
      address =
        or_string (FULLADDRESS item) (or_string (SUBLOCALITY item) ''Unknown Address''),
      subLocality = SUBLOCALITY item,
      price = PRICE item,
      sqft = PROPERTYSQFT item,
      pricePerSqft =
        (case PROPERTYSQFT item of
           None \<Rightarrow> Null
         | Some s \<Rightarrow> if s = 0 then Null else Value (divide_by (ToNumber (PRICE item)) s)),
      status =
        or_string (STATUS item)
          (if greater (PRICE item) 800000 then ''Reserved'' else ''Available'')\<rparr>"

text \<open>\<^verbatim>\<open>array.map(toUnit)\<close> passes each element with its position.\<close>

fun map_index :: "('a \<Rightarrow> nat \<Rightarrow> 'b) \<Rightarrow> nat \<Rightarrow> 'a list \<Rightarrow> 'b list" where
  "map_index f i [] = []"
| "map_index f i (x # xs) = f x i # map_index f (Suc i) xs"

text \<open>
  The dataset is whatever JSON value the file holds: a falsy value, a value that is not
  an array, or an array of raw records. Only the overview handler tests which.
\<close>

datatype dataset = Falsy | NotArray | Array "raw_record list"

section \<open>Overview handler\<close>

record area_total =
  name :: string
  totalPrice :: real
  count :: nat

record area_entry =
  name :: string
  avgPrice :: real
  count :: nat

record overview =
  totalValue :: real
  unitCount :: nat
  avgPrice :: real
  byArea :: "area_entry list"

text \<open>\<^verbatim>\<open>units.reduce((sum, u) => sum + (u.price || 0), 0)\<close>\<close>

definition total_value :: "unit_entity list \<Rightarrow> real" where
  "total_value units = foldl (\<lambda>sum u. sum + or_zero (price u)) 0 units"

text \<open>
  \<^verbatim>\<open>areaMap\<close> is an object literal used as a dictionary: its own properties, in the
  order they were created. One step of the \<^verbatim>\<open>forEach\<close>: when the area name is a name
  that every object inherits, \<^verbatim>\<open>areaMap[area]\<close> is that inherited value, which is truthy,
  so no entry is created and the two updates land on the inherited value, not on
  \<^verbatim>\<open>areaMap\<close>. (They set \<^verbatim>\<open>totalPrice\<close> and \<^verbatim>\<open>count\<close> of that value to \<open>NaN\<close>; no
  handler reads them, and a later lookup that meets them finds a falsy value, as it
  would find \<^verbatim>\<open>undefined\<close>.)
\<close>

definition update_entry ::
    "string \<Rightarrow> (area_total \<Rightarrow> area_total) \<Rightarrow> (string \<times> area_total) list
       \<Rightarrow> (string \<times> area_total) list" where
  "update_entry key f obj = map (\<lambda>(k, v). if k = key then (k, f v) else (k, v)) obj"

definition add_unit :: "(string \<times> area_total) list \<Rightarrow> unit_entity \<Rightarrow> (string \<times> area_total) list" where
  "add_unit areaMap u =
     (let area = or_string (subLocality u) ''Unknown''
      in case get_property areaMap area of
           Inherited \<Rightarrow> areaMap
         | Undefined \<Rightarrow>
             areaMap @
               [(area, \<lparr>area_total.name = area, totalPrice = 0 + or_zero (price u),
                        count = 0 + 1\<rparr>)]
         | Own e \<Rightarrow>
             update_entry area
               (\<lambda>e. e\<lparr>totalPrice := totalPrice e + or_zero (price u),
                       area_total.count := area_total.count e + 1\<rparr>) areaMap)"

text \<open>
  \<^verbatim>\<open>Object.values\<close> lists the own properties whose key is an array index (the decimal
  text of an integer below \<open>2^32 - 1\<close>) first, in ascending numeric order, and then the
  other keys in the order of their creation.
\<close>

definition digit :: "char \<Rightarrow> bool" where
  "digit c = (48 \<le> (of_char c :: nat) \<and> (of_char c :: nat) \<le> 57)"

definition numeric_value :: "string \<Rightarrow> int" where
  "numeric_value k = foldl (\<lambda>n c. 10 * n + ((of_char c :: int) - 48)) 0 k"

definition is_array_index :: "string \<Rightarrow> bool" where
  "is_array_index k =
     (k \<noteq> [] \<and> list_all digit k \<and> (k = ''0'' \<or> hd k \<noteq> CHR ''0'')
      \<and> numeric_value k < 4294967295)"

definition Object_values :: "(string \<times> 'a) list \<Rightarrow> 'a list" where
  "Object_values obj =
     map snd
       (sort_key (\<lambda>(k, v). numeric_value k) (filter (\<lambda>(k, v). is_array_index k) obj)
        @ filter (\<lambda>(k, v). \<not> is_array_index k) obj)"

definition area_summary :: "area_total \<Rightarrow> area_entry" where
  "area_summary item =
     \<lparr>area_entry.name = area_total.name item,
      avgPrice =
        (if area_total.count item \<noteq> 0
         then Math_round (totalPrice item / real (area_total.count item)) else 0),
      count = area_total.count item\<rparr>"

text \<open>
  \<^verbatim>\<open>.sort((a, b) => b.count - a.count)\<close> is a stable sort by descending count (the sort
  of an array is stable since ECMAScript 2019); \<^verbatim>\<open>.slice(0, 10)\<close> keeps the first ten.
\<close>

definition by_area :: "unit_entity list \<Rightarrow> area_entry list" where
  "by_area units =
     take 10
       (sort_key (\<lambda>e. - int (area_entry.count e))
          (map area_summary (Object_values (foldl add_unit [] units))))"

definition overview_handler :: "dataset \<Rightarrow> overview" where
  "overview_handler rawData =
     (case rawData of
        Array items \<Rightarrow>
          if length items = 0
          then \<lparr>totalValue = 0, unitCount = 0, avgPrice = 0, byArea = []\<rparr>
          else
            (let units = map_index toUnit 0 items;
                 totalValue = total_value units;
                 unitCount = length units;
                 avgPrice = (if unitCount > 0 then totalValue / real unitCount else 0)
             in \<lparr>totalValue = totalValue, unitCount = unitCount, avgPrice = avgPrice,
                  byArea = by_area units\<rparr>)
      | _ \<Rightarrow> \<lparr>totalValue = 0, unitCount = 0, avgPrice = 0, byArea = []\<rparr>)"

section \<open>Property insights\<close>

record insight =
  unit :: unit_entity
  original :: raw_record
  isPremium :: bool

definition insights_handler :: "dataset \<Rightarrow> insight list reply" where
  "insights_handler rawData =
     (case rawData of
        Array items \<Rightarrow>
          Sent (map_index
                  (\<lambda>item index.
                     \<lparr>unit = toUnit item index, original = item,
                      isPremium = greater (PRICE item) 1000000\<rparr>) 0 items)
      | _ \<Rightarrow> Failed)"

section \<open>Inventory handler\<close>

text \<open>
  A value of \<^verbatim>\<open>req.query\<close>: the text of a parameter given once, an array for a parameter
  that is repeated (\<^verbatim>\<open>?area=a&area=b\<close>), an object for a bracketed one
  (\<^verbatim>\<open>?area[k]=a\<close>); arrays and objects nest. A parameter that is not given is
  \<^verbatim>\<open>undefined\<close>.
\<close>

datatype query_value =
  QString string
| QArray "query_value list"
| QObject "(string \<times> query_value) list"

text \<open>Truthiness: every array and every object is truthy, the empty text is not.\<close>

fun truthy_query :: "query_value \<Rightarrow> bool" where
  "truthy_query (QString s) = (s \<noteq> [])"
| "truthy_query (QArray vs) = True"
| "truthy_query (QObject kvs) = True"

text \<open>
  \<^verbatim>\<open>String(v)\<close>: a text is itself, an array is the texts of its elements joined by commas,
  an object is \<^verbatim>\<open>[object Object]\<close>.
\<close>

fun join_comma :: "string list \<Rightarrow> string" where
  "join_comma [] = []"
| "join_comma [s] = s"
| "join_comma (s # t # rest) = s @ '','' @ join_comma (t # rest)"

fun to_String :: "query_value \<Rightarrow> string" where
  "to_String (QString s) = s"
| "to_String (QArray vs) = join_comma (map to_String vs)"
| "to_String (QObject kvs) = ''[object Object]''"

text \<open>
  A method call on a value that may be \<^verbatim>\<open>undefined\<close>: \<^verbatim>\<open>undefined.toLowerCase()\<close>
  throws a \<^verbatim>\<open>TypeError\<close>. So does \<^verbatim>\<open>v.toLowerCase()\<close> on a query value that is
  not a text: an array has no such method, and what an object holds under that name is
  not a function.
\<close>

definition call_toLowerCase :: "string option \<Rightarrow> fault + string" where
  "call_toLowerCase x = (case x of None \<Rightarrow> Inl TypeError | Some s \<Rightarrow> Inr (toLowerCase s))"

fun query_toLowerCase :: "query_value \<Rightarrow> fault + string" where
  "query_toLowerCase (QString s) = Inr (toLowerCase s)"
| "query_toLowerCase (QArray vs) = Inl TypeError"
| "query_toLowerCase (QObject kvs) = Inl TypeError"

text \<open>\<^verbatim>\<open>String(u.status).toLowerCase() === String(status).toLowerCase()\<close>\<close>

definition status_matches :: "query_value \<Rightarrow> unit_entity \<Rightarrow> bool" where
  "status_matches wanted u =
     (toLowerCase (unit_entity.status u) = toLowerCase (to_String wanted))"

text \<open>
  \<^verbatim>\<open>u.subLocality && u.subLocality.toLowerCase().includes(area.toLowerCase())\<close>: the right
  operand is evaluated only when the left one is truthy, and in it the receiver before
  the argument. The area value is not converted with \<^verbatim>\<open>String\<close>, as the status value is.
\<close>

definition area_matches :: "query_value \<Rightarrow> unit_entity \<Rightarrow> fault + bool" where
  "area_matches area u =
     (if truthy_string (subLocality u)
      then (case call_toLowerCase (subLocality u) of
              Inl e \<Rightarrow> Inl e
            | Inr lower \<Rightarrow>
                (case query_toLowerCase area of
                   Inl e \<Rightarrow> Inl e
                 | Inr wanted \<Rightarrow> Inr (str_includes lower wanted)))
      else Inr False)"

text \<open>\<^verbatim>\<open>array.filter\<close> with a callback that may throw: the first exception ends it.\<close>

fun filter_throwing :: "('a \<Rightarrow> fault + bool) \<Rightarrow> 'a list \<Rightarrow> fault + 'a list" where
  "filter_throwing p [] = Inr []"
| "filter_throwing p (x # xs) =
     (case p x of
        Inl e \<Rightarrow> Inl e
      | Inr keep \<Rightarrow>
          (case filter_throwing p xs of
             Inl e \<Rightarrow> Inl e
           | Inr ys \<Rightarrow> Inr (if keep then x # ys else ys)))"

definition properties_handler ::
    "dataset \<Rightarrow> query_value option \<Rightarrow> query_value option \<Rightarrow> unit_entity list reply" where
  "properties_handler rawData statusParam areaParam =
     (case rawData of
        Array items \<Rightarrow>
          (let units = map_index toUnit 0 items;
               units = (case statusParam of
                          None \<Rightarrow> units
                        | Some q \<Rightarrow>
                            if truthy_query q then filter (status_matches q) units else units)
           in case (case areaParam of
                      None \<Rightarrow> Inr units
                    | Some a \<Rightarrow>
                        if truthy_query a then filter_throwing (area_matches a) units
                        else Inr units) of
                Inl e \<Rightarrow> Failed
              | Inr units \<Rightarrow> Sent (take 200 units))
      | _ \<Rightarrow> Failed)"

section \<open>Contracts and maintenance tasks\<close>

text \<open>
  \<^verbatim>\<open>Date.now()\<close> is read anew at every call: \<open>now k\<close> is the reading of the \<open>k\<close>-th call
  a handler makes, in milliseconds. A date is kept as the number of milliseconds that
  \<^verbatim>\<open>toISOString\<close> prints (every reading of a running clock is within the range of
  dates that can be printed).
\<close>

type_synonym clock = "nat \<Rightarrow> int"

record installment =
  installmentNo :: nat
  dueDate :: int
  amount :: number
  status :: string

record contract =
  contractId :: string
  unitId :: string
  buyerName :: string
  bookingDate :: int
  totalPrice :: "real option"
  downPayment :: number
  installmentSchedule :: "installment list"

definition make_contract :: "clock \<Rightarrow> unit_entity \<Rightarrow> nat \<Rightarrow> contract" where
  "make_contract now u index =
     \<lparr>contractId = ''CN-'' @ decimal (index + 1),
      unitId = unit_entity.unitId u,
      buyerName = ''Buyer '' @ decimal (index + 1),
      bookingDate = now (4 * index) - int index * 86400000,
      totalPrice = price u,
      downPayment = Math_round_number (times_number (ToNumber (price u)) 0.2),
      installmentSchedule =
        [\<lparr>installmentNo = 1, dueDate = now (4 * index + 1) + 30 * 86400000,
          amount = Math_round_number (times_number (ToNumber (price u)) 0.2),
          status = ''Pending''\<rparr>,
         \<lparr>installmentNo = 2, dueDate = now (4 * index + 2) + 60 * 86400000,
          amount = Math_round_number (times_number (ToNumber (price u)) 0.3),
          status = ''Pending''\<rparr>,
         \<lparr>installmentNo = 3, dueDate = now (4 * index + 3) + 90 * 86400000,
          amount = Math_round_number (times_number (ToNumber (price u)) 0.3),
          status = ''Pending''\<rparr>]\<rparr>"

definition contracts_handler :: "clock \<Rightarrow> dataset \<Rightarrow> contract list reply" where
  "contracts_handler now rawData =
     (case rawData of
        Array items \<Rightarrow>
          (let units = map_index toUnit 0 (take 100 items)
           in Sent (map_index (make_contract now) 0 units))
      | _ \<Rightarrow> Failed)"

record task =
  taskId :: string
  unitId :: string
  projectName :: string
  subLocality :: "string option"
  priority :: string
  type :: string
  status :: string
  scheduledDate :: int

definition make_task :: "clock \<Rightarrow> unit_entity \<Rightarrow> nat \<Rightarrow> task" where
  "make_task now u index =
     \<lparr>taskId = ''MT-'' @ decimal (index + 1),
      unitId = unit_entity.unitId u,
      projectName = unit_entity.projectName u,
      subLocality = unit_entity.subLocality u,
      priority = (if greater (price u) 900000 then ''High'' else ''Normal''),
      type =
        (if truthy_number (pricePerSqft u)
            \<and> (case pricePerSqft u of Null \<Rightarrow> False | Value x \<Rightarrow> greater_number x 500)
         then ''Inspection'' else ''General Repair''),
      status = (if index mod 3 = 0 then ''In Progress'' else ''Open''),
      scheduledDate = now index + (int index + 1) * 86400000\<rparr>"

definition tasks_handler :: "clock \<Rightarrow> dataset \<Rightarrow> task list reply" where
  "tasks_handler now rawData =
     (case rawData of
        Array items \<Rightarrow>
          (let units = map_index toUnit 0 (take 50 items)
           in Sent (map_index (make_task now) 0 units))
      | _ \<Rightarrow> Failed)"

section \<open>Routes\<close>

record request =
  x_role :: "string option"
  query_status :: "query_value option"
  query_area :: "query_value option"

definition get_overview :: "dataset \<Rightarrow> request \<Rightarrow> overview reply" where
  "get_overview rawData req =
     protected ''view_overview'' (\<lambda>u. Sent (overview_handler rawData)) (x_role req)"

definition get_property_insights :: "dataset \<Rightarrow> request \<Rightarrow> insight list reply" where
  "get_property_insights rawData req =
     protected ''view_overview'' (\<lambda>u. insights_handler rawData) (x_role req)"

definition get_properties :: "dataset \<Rightarrow> request \<Rightarrow> unit_entity list reply" where
  "get_properties rawData req =
     protected ''view_sales''
       (\<lambda>u. properties_handler rawData (query_status req) (query_area req)) (x_role req)"

definition get_contracts :: "clock \<Rightarrow> dataset \<Rightarrow> request \<Rightarrow> contract list reply" where
  "get_contracts now rawData req =
     protected ''view_sales'' (\<lambda>u. contracts_handler now rawData) (x_role req)"

definition get_tasks :: "clock \<Rightarrow> dataset \<Rightarrow> request \<Rightarrow> task list reply" where
  "get_tasks now rawData req =
     protected ''view_maintenance'' (\<lambda>u. tasks_handler now rawData) (x_role req)"

section \<open>The specification's vocabulary\<close>

text \<open>
  The definitions of this section follow the words of the specification, not the code:
  the theorems compare the handlers with them.
\<close>

text \<open>The permission table of the specification: every role it does not name has none.\<close>

definition permission_table :: "string \<Rightarrow> string list" where
  "permission_table r =
     (if r = ''admin'' then [''view_overview'', ''view_sales'', ''view_maintenance'']
      else if r = ''sales'' then [''view_overview'', ''view_sales'']
      else if r = ''technician'' then [''view_overview'', ''view_maintenance'']
      else [])"

text \<open>
  The role as the specification resolves it: the header in lower case, and \<open>sales\<close>
  when the header is absent.
\<close>

definition claimed_role :: "string option \<Rightarrow> string" where
  "claimed_role header = toLowerCase (case header of None \<Rightarrow> ''sales'' | Some h \<Rightarrow> h)"

text \<open>
  A fallback chain: the first candidate that is present and not empty, and the
  placeholder when there is none.
\<close>

fun fallback_chain :: "string option list \<Rightarrow> string \<Rightarrow> string" where
  "fallback_chain [] placeholder = placeholder"
| "fallback_chain (None # rest) placeholder = fallback_chain rest placeholder"
| "fallback_chain (Some s # rest) placeholder =
     (if s = [] then fallback_chain rest placeholder else s)"

text \<open>The records of a dataset: a dataset that is not an array has none.\<close>

definition dataset_records :: "dataset \<Rightarrow> raw_record list" where
  "dataset_records d = (case d of Array items \<Rightarrow> items | _ \<Rightarrow> [])"

text \<open>The price of a unit, an absent price counting as zero.\<close>

definition price_or_zero :: "unit_entity \<Rightarrow> real" where
  "price_or_zero u = (case price u of None \<Rightarrow> 0 | Some p \<Rightarrow> p)"

text \<open>
  The share of a price the specification writes \<open>round(price * c)\<close>: the nearest integer,
  a half rounded up; there is no number to round when the price is absent.
\<close>

definition rounded_share :: "real option \<Rightarrow> real \<Rightarrow> number" where
  "rounded_share p c = (case p of None \<Rightarrow> NaN | Some x \<Rightarrow> Num (of_int (round (x * c))))"

text \<open>A number of days in milliseconds.\<close>

definition days :: "int \<Rightarrow> int" where
  "days n = n * 86400000"

text \<open>A raw record with the four fields the examples vary; identifier, project name and
  address are absent.\<close>

abbreviation listing ::
    "string option \<Rightarrow> real option \<Rightarrow> real option \<Rightarrow> string option \<Rightarrow> raw_record" where
  "listing area p sq st \<equiv>
     \<lparr>LISTINGID = None, PROJECTNAME = None, FULLADDRESS = None, SUBLOCALITY = area,
      PRICE = p, PROPERTYSQFT = sq, STATUS = st\<rparr>"



text \<open>
  The area a unit is counted under: its sub-locality, and \<open>Unknown\<close> when it has none
  (or an empty one).
\<close>

definition area_name :: "unit_entity \<Rightarrow> string" where
  "area_name u =
     (case unit_entity.subLocality u of
        None \<Rightarrow> ''Unknown''
      | Some s \<Rightarrow> if s = [] then ''Unknown'' else s)"

text \<open>The units of an area, and the totals of their group.\<close>

definition units_in :: "string \<Rightarrow> unit_entity list \<Rightarrow> unit_entity list" where
  "units_in a units = filter (\<lambda>u. area_name u = a) units"

definition group_total :: "string \<Rightarrow> unit_entity list \<Rightarrow> area_total" where
  "group_total a units =
     \<lparr>area_total.name = a,
      area_total.totalPrice = sum_list (map price_or_zero (units_in a units)),
      area_total.count = length (units_in a units)\<rparr>"

section \<open>The access control gate\<close>

lemma toLowerChar_not_upper:
  "\<not> (65 \<le> (of_char (toLowerChar c) :: nat) \<and> (of_char (toLowerChar c) :: nat) \<le> 90)"
proof (cases "(65 \<le> (of_char c :: nat) \<and> (of_char c :: nat) \<le> 90)
    \<or> (192 \<le> (of_char c :: nat) \<and> (of_char c :: nat) \<le> 222 \<and> (of_char c :: nat) \<noteq> 215)")
  case True
  then have "toLowerChar c = char_of ((of_char c :: nat) + 32)"
    by (simp add: toLowerChar_def Let_def)
  moreover have "(of_char (char_of ((of_char c :: nat) + 32)) :: nat) = ((of_char c :: nat) + 32) mod 256"
    by (simp only: of_char_of)
  ultimately show ?thesis using True by auto
next
  case False
  have "toLowerChar c = c"
    unfolding toLowerChar_def Let_def using False by (simp only: if_False)
  then show ?thesis using False by auto
qed

lemma toLowerCase_no_upper:
  assumes "c \<in> set k" "65 \<le> (of_char c :: nat)" "(of_char c :: nat) \<le> 90"
  shows "toLowerCase s \<noteq> k"
proof
  assume "toLowerCase s = k"
  then have "c \<in> toLowerChar ` set s" using assms(1) by (auto simp: toLowerCase_def)
  then obtain d where "c = toLowerChar d" by auto
  then show False using toLowerChar_not_upper [of d] assms(2,3) by simp
qed

text \<open>
  A role that has been put in lower case can only meet two of the inherited names: the
  others contain a capital letter.
\<close>

lemma lowered_inherited:
  "toLowerCase s \<in> set Object_prototype_keys \<Longrightarrow>
     toLowerCase s = ''constructor'' \<or> toLowerCase s = ''__proto__''"
  using toLowerCase_no_upper [of "CHR ''G''" "''__defineGetter__''" s]
    toLowerCase_no_upper [of "CHR ''S''" "''__defineSetter__''" s]
    toLowerCase_no_upper [of "CHR ''O''" "''hasOwnProperty''" s]
    toLowerCase_no_upper [of "CHR ''G''" "''__lookupGetter__''" s]
    toLowerCase_no_upper [of "CHR ''S''" "''__lookupSetter__''" s]
    toLowerCase_no_upper [of "CHR ''P''" "''isPrototypeOf''" s]
    toLowerCase_no_upper [of "CHR ''I''" "''propertyIsEnumerable''" s]
    toLowerCase_no_upper [of "CHR ''S''" "''toString''" s]
    toLowerCase_no_upper [of "CHR ''O''" "''valueOf''" s]
    toLowerCase_no_upper [of "CHR ''L''" "''toLocaleString''" s]
  by (simp add: Object_prototype_keys_def)

lemma get_property_ROLE_PERMISSIONS:
  "get_property ROLE_PERMISSIONS r =
     (if r = ''admin'' \<or> r = ''sales'' \<or> r = ''technician'' then Own (permission_table r)
      else if r \<in> set Object_prototype_keys then Inherited else Undefined)"
  by (simp add: get_property_def ROLE_PERMISSIONS_def permission_table_def)

lemma authorize_cases:
  "authorize p header =
     (let r = toLowerCase (or_string header ''sales'')
      in if r \<noteq> ''admin'' \<and> r \<noteq> ''sales'' \<and> r \<noteq> ''technician'' \<and> r \<in> set Object_prototype_keys
         then Throws TypeError
         else if p \<in> set (permission_table r)
              then Proceed \<lparr>role = r, permissions = permission_table r\<rparr>
              else Reject 403 ''Forbidden: insufficient permissions'' r)"
  by (simp add: authorize_def Let_def get_property_ROLE_PERMISSIONS permission_table_def)

text \<open>
  C1, as stated, at a header that is present and empty. The specification's role is the
  empty string, whose permission set is empty, so it asks for a 403; the gate reads the
  empty string as falsy, takes \<open>sales\<close>, and lets the request through.
\<close>

theorem authorize_empty_header_counterexample:
  "''view_overview'' \<notin> set (permission_table (claimed_role (Some '''')))
   \<and> authorize ''view_overview'' (Some '''') =
       Proceed \<lparr>role = ''sales'', permissions = [''view_overview'', ''view_sales'']\<rparr>"
  by code_simp

text \<open>
  C1, amended. The gate resolves the role \<open>r\<close> by putting the \<^verbatim>\<open>x-role\<close> header in
  lower case, with \<open>sales\<close> when the header is absent or empty. For every resolved role
  other than \<open>constructor\<close> and \<open>__proto__\<close>: the gate answers 403 with the payload
  \<^verbatim>\<open>{message, role}\<close> exactly when the required permission is not in the table's set for
  \<open>r\<close>, and otherwise calls the handler with the role and its set attached; on a 403 the
  reply is the gate's whatever the handler is, so no handler logic runs; and every role
  outside admin, sales and technician gets the 403 from each of the five protected
  endpoints.
\<close>

theorem authorize_gate:
  assumes "r = toLowerCase (or_string (x_role req) ''sales'')"
    and "r \<noteq> ''constructor''" and "r \<noteq> ''__proto__''"
  shows "(authorize p (x_role req) = Reject 403 ''Forbidden: insufficient permissions'' r
            \<longleftrightarrow> p \<notin> set (permission_table r))
       \<and> (authorize p (x_role req) = Proceed \<lparr>role = r, permissions = permission_table r\<rparr>
            \<longleftrightarrow> p \<in> set (permission_table r))
       \<and> (p \<notin> set (permission_table r) \<longrightarrow>
            protected p handler (x_role req) =
              Forbidden 403 ''Forbidden: insufficient permissions'' r)
       \<and> (r \<notin> {''admin'', ''sales'', ''technician''} \<longrightarrow>
            get_overview rawData req = Forbidden 403 ''Forbidden: insufficient permissions'' r
          \<and> get_property_insights rawData req =
              Forbidden 403 ''Forbidden: insufficient permissions'' r
          \<and> get_properties rawData req = Forbidden 403 ''Forbidden: insufficient permissions'' r
          \<and> get_contracts now rawData req =
              Forbidden 403 ''Forbidden: insufficient permissions'' r
          \<and> get_tasks now rawData req = Forbidden 403 ''Forbidden: insufficient permissions'' r)"
proof -
  have not_inherited: "r \<notin> set Object_prototype_keys"
    using assms lowered_inherited [of "or_string (x_role req) ''sales''"] by auto
  have decide: "authorize q (x_role req) =
      (if q \<in> set (permission_table r)
       then Proceed \<lparr>role = r, permissions = permission_table r\<rparr>
       else Reject 403 ''Forbidden: insufficient permissions'' r)" for q
    using not_inherited assms(1) by (simp add: authorize_cases Let_def)
  have gate: "(authorize p (x_role req) = Reject 403 ''Forbidden: insufficient permissions'' r
            \<longleftrightarrow> p \<notin> set (permission_table r))
       \<and> (authorize p (x_role req) = Proceed \<lparr>role = r, permissions = permission_table r\<rparr>
            \<longleftrightarrow> p \<in> set (permission_table r))"
    by (simp add: decide)
  have stop: "protected q h (x_role req) = Forbidden 403 ''Forbidden: insufficient permissions'' r"
    if "q \<notin> set (permission_table r)" for q and h :: "user \<Rightarrow> 'b reply"
    using that by (simp add: protected_def decide)
  have empty: "permission_table r = []" if "r \<notin> {''admin'', ''sales'', ''technician''}"
    using that by (simp add: permission_table_def)
  have routes: "get_overview rawData req = Forbidden 403 ''Forbidden: insufficient permissions'' r
          \<and> get_property_insights rawData req =
              Forbidden 403 ''Forbidden: insufficient permissions'' r
          \<and> get_properties rawData req = Forbidden 403 ''Forbidden: insufficient permissions'' r
          \<and> get_contracts now rawData req =
              Forbidden 403 ''Forbidden: insufficient permissions'' r
          \<and> get_tasks now rawData req = Forbidden 403 ''Forbidden: insufficient permissions'' r"
    if "r \<notin> {''admin'', ''sales'', ''technician''}"
    unfolding get_overview_def get_property_insights_def get_properties_def get_contracts_def
      get_tasks_def
    using empty [OF that] by (simp add: stop)
  from gate stop [of p handler] routes show ?thesis by blast
qed

theorem authorize_gate_witness:
  "''technician'' =
      toLowerCase (or_string (x_role \<lparr>x_role = Some ''Technician'', query_status = None,
                                      query_area = None\<rparr>) ''sales'')
   \<and> ''technician'' \<noteq> ''constructor'' \<and> ''technician'' \<noteq> ''__proto__''
   \<and> ''view_sales'' \<notin> set (permission_table ''technician'')
   \<and> authorize ''view_sales'' (Some ''Technician'') =
       Reject 403 ''Forbidden: insufficient permissions'' ''technician''
   \<and> protected ''view_sales'' (\<lambda>u. Sent True) (Some ''Technician'') =
       Forbidden 403 ''Forbidden: insufficient permissions'' ''technician''"
proof -
  let ?req = "\<lparr>x_role = Some ''Technician'', query_status = None, query_area = None\<rparr>"
  have resolved: "''technician'' = toLowerCase (or_string (x_role ?req) ''sales'')"
    by code_simp
  have other: "''technician'' \<noteq> ''constructor''" "''technician'' \<noteq> ''__proto__''"
    by simp_all
  have missing: "''view_sales'' \<notin> set (permission_table ''technician'')"
    by code_simp
  note gate = authorize_gate [OF resolved other, of "''view_sales''" "\<lambda>u. Sent True"]
  from gate missing
  have "authorize ''view_sales'' (x_role ?req) =
          Reject 403 ''Forbidden: insufficient permissions'' ''technician''
      \<and> protected ''view_sales'' (\<lambda>u. Sent True) (x_role ?req) =
          Forbidden 403 ''Forbidden: insufficient permissions'' ''technician''"
    by blast
  then show ?thesis using resolved other missing by simp
qed

text \<open>
  The two roles left out above: the table object inherits a value under these names, the
  value has no \<^verbatim>\<open>includes\<close>, and the gate throws instead of answering 403.
\<close>

lemma authorize_inherited_name:
  "authorize ''view_overview'' (Some ''constructor'') = Throws TypeError
   \<and> authorize ''view_overview'' (Some ''__PROTO__'') = Throws TypeError
   \<and> protected ''view_overview'' (\<lambda>u. Sent True) (Some ''constructor'') = Failed"
  by code_simp

section \<open>The entity mapper\<close>

lemma length_map_index: "length (map_index f i xs) = length xs"
  by (induction xs arbitrary: i) simp_all

lemma nth_map_index: "n < length xs \<Longrightarrow> map_index f i xs ! n = f (xs ! n) (i + n)"
proof (induction xs arbitrary: i n)
  case Nil
  then show ?case by simp
next
  case (Cons x xs)
  then show ?case by (cases n) simp_all
qed

lemma or_zero_price: "or_zero (price u) = price_or_zero u"
  by (simp add: or_zero_def price_or_zero_def split: option.splits)

lemma foldl_plus: "foldl (\<lambda>sum u. sum + f u) (a :: real) xs = a + sum_list (map f xs)"
  by (induction xs arbitrary: a) simp_all

text \<open>
  C7, as stated, at a raw record without a sub-locality: the unit's \<open>subLocality\<close> is
  \<^verbatim>\<open>undefined\<close>, no placeholder is put in its place.
\<close>

theorem toUnit_subLocality_counterexample:
  "unit_entity.subLocality
     (toUnit \<lparr>LISTINGID = None, PROJECTNAME = None, FULLADDRESS = None, SUBLOCALITY = None,
              PRICE = Some 100, PROPERTYSQFT = None, STATUS = None\<rparr> 0) = None"
  by (simp add: toUnit_def)

text \<open>
  C7, amended. For every raw record, the \<open>subLocality\<close> of the unit is the record's
  sub-locality as it is, absent when the record has none. Only \<open>projectName\<close> and
  \<open>address\<close> are strings obtained through a fallback chain ending in a fixed
  placeholder (project name, then sub-locality, then \<open>Unknown Project\<close>; full address,
  then sub-locality, then \<open>Unknown Address\<close>), so these two are always present.
\<close>

theorem toUnit_names:
  "unit_entity.subLocality (toUnit item index) = SUBLOCALITY item
   \<and> unit_entity.projectName (toUnit item index) =
       fallback_chain [PROJECTNAME item, SUBLOCALITY item] ''Unknown Project''
   \<and> address (toUnit item index) =
       fallback_chain [FULLADDRESS item, SUBLOCALITY item] ''Unknown Address''
   \<and> unit_entity.projectName (toUnit item index) \<noteq> []
   \<and> address (toUnit item index) \<noteq> []"
  by (simp add: toUnit_def or_string_def split: option.splits)

theorem toUnit_names_witness:
  "unit_entity.subLocality
     (toUnit \<lparr>LISTINGID = None, PROJECTNAME = None, FULLADDRESS = Some '''', SUBLOCALITY = Some ''Queens'',
              PRICE = None, PROPERTYSQFT = None, STATUS = None\<rparr> 4) = Some ''Queens''
   \<and> unit_entity.projectName
     (toUnit \<lparr>LISTINGID = None, PROJECTNAME = None, FULLADDRESS = Some '''', SUBLOCALITY = Some ''Queens'',
              PRICE = None, PROPERTYSQFT = None, STATUS = None\<rparr> 4) = ''Queens''
   \<and> address
     (toUnit \<lparr>LISTINGID = None, PROJECTNAME = None, FULLADDRESS = Some '''', SUBLOCALITY = Some ''Queens'',
              PRICE = None, PROPERTYSQFT = None, STATUS = None\<rparr> 4) = ''Queens''"
  using toUnit_names [of "\<lparr>LISTINGID = None, PROJECTNAME = None, FULLADDRESS = Some '''', SUBLOCALITY = Some ''Queens'',
              PRICE = None, PROPERTYSQFT = None, STATUS = None\<rparr>" 4]
  by simp

text \<open>
  C8. For every raw record, \<open>pricePerSqft\<close> of the unit is price divided by square
  footage when the square footage is present and not zero (\<open>NaN\<close> when the price is
  absent, as the division of \<^verbatim>\<open>undefined\<close> gives), and \<^verbatim>\<open>null\<close> when the square
  footage is zero or absent. When the record has no status (or an empty one), the unit's
  status is \<open>Reserved\<close> exactly when the price exceeds 800000 and \<open>Available\<close>
  otherwise.
\<close>

theorem toUnit_derived:
  "(\<forall>s. PROPERTYSQFT item = Some s \<and> s \<noteq> 0 \<longrightarrow>
        pricePerSqft (toUnit item index) =
          Value (case PRICE item of None \<Rightarrow> NaN | Some p \<Rightarrow> Num (p / s)))
   \<and> (PROPERTYSQFT item = None \<or> PROPERTYSQFT item = Some 0 \<longrightarrow>
        pricePerSqft (toUnit item index) = Null)
   \<and> (STATUS item = None \<or> STATUS item = Some [] \<longrightarrow>
        (unit_entity.status (toUnit item index) = ''Reserved''
           \<longleftrightarrow> (\<exists>p. PRICE item = Some p \<and> p > 800000))
      \<and> (unit_entity.status (toUnit item index) = ''Available''
           \<longleftrightarrow> \<not> (\<exists>p. PRICE item = Some p \<and> p > 800000)))"
  by (auto simp: toUnit_def or_string_def divide_by_def ToNumber_def greater_def
      split: option.splits)

theorem toUnit_derived_witness:
  "PROPERTYSQFT \<lparr>LISTINGID = None, PROJECTNAME = None, FULLADDRESS = None, SUBLOCALITY = None,
              PRICE = Some 900000, PROPERTYSQFT = Some 1500, STATUS = None\<rparr> = Some 1500
   \<and> (1500 :: real) \<noteq> 0
   \<and> pricePerSqft (toUnit \<lparr>LISTINGID = None, PROJECTNAME = None, FULLADDRESS = None, SUBLOCALITY = None,
              PRICE = Some 900000, PROPERTYSQFT = Some 1500, STATUS = None\<rparr> 0) = Value (Num 600)
   \<and> unit_entity.status (toUnit \<lparr>LISTINGID = None, PROJECTNAME = None, FULLADDRESS = None, SUBLOCALITY = None,
              PRICE = Some 900000, PROPERTYSQFT = Some 1500, STATUS = None\<rparr> 0) = ''Reserved''"
  using toUnit_derived [of "\<lparr>LISTINGID = None, PROJECTNAME = None, FULLADDRESS = None, SUBLOCALITY = None,
              PRICE = Some 900000, PROPERTYSQFT = Some 1500, STATUS = None\<rparr>" 0]
  by simp

section \<open>The overview\<close>

text \<open>
  C2. For every dataset, the overview has \<open>totalValue\<close> equal to the sum of the unit
  prices with an absent price counted as zero, \<open>unitCount\<close> equal to the number of
  records, and \<open>avgPrice\<close> equal to \<open>totalValue / unitCount\<close> when \<open>unitCount\<close> is
  positive and zero otherwise; a dataset that is missing, not an array or empty gives the
  zeroed payload.
\<close>

theorem overview_totals:
  "totalValue (overview_handler d) =
      sum_list (map price_or_zero (map_index toUnit 0 (dataset_records d)))
   \<and> unitCount (overview_handler d) = length (dataset_records d)
   \<and> overview.avgPrice (overview_handler d) =
       (if unitCount (overview_handler d) > 0
        then totalValue (overview_handler d) / real (unitCount (overview_handler d)) else 0)
   \<and> (d = Falsy \<or> d = NotArray \<or> d = Array [] \<longrightarrow>
        overview_handler d = \<lparr>totalValue = 0, unitCount = 0, avgPrice = 0, byArea = []\<rparr>)"
proof (cases d)
  case (Array items)
  then show ?thesis
    by (cases "items = []")
      (simp_all add: overview_handler_def dataset_records_def total_value_def or_zero_price
        foldl_plus length_map_index Let_def)
qed (simp_all add: overview_handler_def dataset_records_def)

theorem overview_totals_witness:
  "totalValue (overview_handler (Array
      [listing None (Some 100) None None,
       listing None None None None,
       listing None (Some 300) None None])) = 400
   \<and> unitCount (overview_handler (Array
      [listing None (Some 100) None None,
       listing None None None None,
       listing None (Some 300) None None])) = 3
   \<and> overview.avgPrice (overview_handler (Array
      [listing None (Some 100) None None,
       listing None None None None,
       listing None (Some 300) None None])) = 400 / 3
   \<and> overview_handler NotArray = \<lparr>totalValue = 0, unitCount = 0, avgPrice = 0, byArea = []\<rparr>"
  using overview_totals [of "Array
      [listing None (Some 100) None None,
       listing None None None None,
       listing None (Some 300) None None]"]
    overview_totals [of NotArray]
  by (simp add: dataset_records_def price_or_zero_def toUnit_def)

section \<open>Contracts\<close>

lemma Math_round_round: "Math_round x = of_int (round x)"
  by (simp add: Math_round_def round_def)

lemma rounded_share_code:
  "Math_round_number (times_number (ToNumber p) c) = rounded_share p c"
  by (simp add: Math_round_number_def times_number_def ToNumber_def rounded_share_def
      Math_round_round split: option.splits)

text \<open>
  Only the overview tests the dataset: on a dataset that is not an array the other
  handlers throw, and the reply is the status 500.
\<close>

lemma handlers_need_array:
  "rawData = Falsy \<or> rawData = NotArray \<Longrightarrow>
     insights_handler rawData = Failed
     \<and> properties_handler rawData statusParam areaParam = Failed
     \<and> contracts_handler now rawData = Failed
     \<and> tasks_handler now rawData = Failed"
  by (auto simp: insights_handler_def properties_handler_def contracts_handler_def
      tasks_handler_def)

text \<open>
  C5. For every dataset that is an array, the contracts reply has exactly one contract
  per unit of the first 100 raw records, in order. In each, \<open>totalPrice\<close> is the unit
  price, \<open>downPayment\<close> is \<open>round(price * 0.2)\<close>, and the schedule has exactly three
  instalments, numbered 1 to 3, with amounts \<open>round(price * 0.2)\<close>, \<open>round(price * 0.3)\<close>,
  \<open>round(price * 0.3)\<close>, due 30, 60 and 90 days after the clock readings taken while the
  request is served, and all with status \<open>Pending\<close>.
\<close>

theorem contracts_handler_schedule:
  "\<exists>cs. contracts_handler now (Array items) = Sent cs
     \<and> length cs = min 100 (length items)
     \<and> (\<forall>i < length cs.
          contract.unitId (cs ! i) = unit_entity.unitId (toUnit (items ! i) i)
        \<and> contractId (cs ! i) = ''CN-'' @ decimal (i + 1)
        \<and> contract.totalPrice (cs ! i) = price (toUnit (items ! i) i)
        \<and> downPayment (cs ! i) = rounded_share (price (toUnit (items ! i) i)) 0.2
        \<and> map installmentNo (installmentSchedule (cs ! i)) = [1, 2, 3]
        \<and> map amount (installmentSchedule (cs ! i)) =
            [rounded_share (price (toUnit (items ! i) i)) 0.2,
             rounded_share (price (toUnit (items ! i) i)) 0.3,
             rounded_share (price (toUnit (items ! i) i)) 0.3]
        \<and> map dueDate (installmentSchedule (cs ! i)) =
            [now (4 * i + 1) + days 30, now (4 * i + 2) + days 60, now (4 * i + 3) + days 90]
        \<and> map installment.status (installmentSchedule (cs ! i)) =
            [''Pending'', ''Pending'', ''Pending''])"
proof -
  let ?units = "map_index toUnit 0 (take 100 items)"
  let ?cs = "map_index (make_contract now) 0 ?units"
  have sent: "contracts_handler now (Array items) = Sent ?cs"
    by (simp add: contracts_handler_def)
  have len: "length ?cs = min 100 (length items)"
    by (simp add: length_map_index min.commute)
  have each: "?cs ! i = make_contract now (toUnit (items ! i) i) i" if "i < length ?cs" for i
    using that by (simp add: length_map_index nth_map_index)
  have "\<forall>i < length ?cs.
          contract.unitId (?cs ! i) = unit_entity.unitId (toUnit (items ! i) i)
        \<and> contractId (?cs ! i) = ''CN-'' @ decimal (i + 1)
        \<and> contract.totalPrice (?cs ! i) = price (toUnit (items ! i) i)
        \<and> downPayment (?cs ! i) = rounded_share (price (toUnit (items ! i) i)) 0.2
        \<and> map installmentNo (installmentSchedule (?cs ! i)) = [1, 2, 3]
        \<and> map amount (installmentSchedule (?cs ! i)) =
            [rounded_share (price (toUnit (items ! i) i)) 0.2,
             rounded_share (price (toUnit (items ! i) i)) 0.3,
             rounded_share (price (toUnit (items ! i) i)) 0.3]
        \<and> map dueDate (installmentSchedule (?cs ! i)) =
            [now (4 * i + 1) + days 30, now (4 * i + 2) + days 60, now (4 * i + 3) + days 90]
        \<and> map installment.status (installmentSchedule (?cs ! i)) =
            [''Pending'', ''Pending'', ''Pending'']"
    by (simp add: each make_contract_def rounded_share_code days_def)
  with sent len show ?thesis by blast
qed

theorem contracts_handler_schedule_witness:
  "\<exists>cs. contracts_handler (\<lambda>k. 1000) (Array [listing None (Some 5) None None, listing None None None None])
          = Sent cs
     \<and> length cs = 2
     \<and> contract.totalPrice (cs ! 0) = Some 5
     \<and> downPayment (cs ! 0) = Num 1
     \<and> map amount (installmentSchedule (cs ! 0)) = [Num 1, Num 2, Num 2]
     \<and> map dueDate (installmentSchedule (cs ! 0)) = [2592001000, 5184001000, 7776001000]
     \<and> map installment.status (installmentSchedule (cs ! 0)) = [''Pending'', ''Pending'', ''Pending'']"
  using contracts_handler_schedule
      [of "\<lambda>k. 1000" "[listing None (Some 5) None None, listing None None None None]"]
  apply (elim exE conjE)
  subgoal for cs
    apply (rule exI [of _ cs])
    apply (drule spec [of _ 0])
    apply (simp add: toUnit_def rounded_share_def round_def days_def)
    done
  done

section \<open>Maintenance tasks\<close>

text \<open>
  C6. For every dataset that is an array, the tasks reply has exactly one task per unit
  of the first 50 raw records, in order. The task at index \<open>i\<close> has status
  \<open>In Progress\<close> exactly when \<open>i mod 3 = 0\<close> and \<open>Open\<close> otherwise, priority \<open>High\<close>
  exactly when the unit price exceeds 900000 and \<open>Normal\<close> otherwise, and type
  \<open>Inspection\<close> exactly when the unit's \<open>pricePerSqft\<close> is a number above 500 and
  \<open>General Repair\<close> otherwise.
\<close>

theorem tasks_handler_fields:
  "\<exists>ts. tasks_handler now (Array items) = Sent ts
     \<and> length ts = min 50 (length items)
     \<and> (\<forall>i < length ts.
          task.unitId (ts ! i) = unit_entity.unitId (toUnit (items ! i) i)
        \<and> taskId (ts ! i) = ''MT-'' @ decimal (i + 1)
        \<and> (task.status (ts ! i) = ''In Progress'' \<longleftrightarrow> i mod 3 = 0)
        \<and> (task.status (ts ! i) = ''Open'' \<longleftrightarrow> i mod 3 \<noteq> 0)
        \<and> (priority (ts ! i) = ''High''
             \<longleftrightarrow> (\<exists>p. price (toUnit (items ! i) i) = Some p \<and> p > 900000))
        \<and> (priority (ts ! i) = ''Normal''
             \<longleftrightarrow> \<not> (\<exists>p. price (toUnit (items ! i) i) = Some p \<and> p > 900000))
        \<and> (type (ts ! i) = ''Inspection''
             \<longleftrightarrow> (\<exists>x. pricePerSqft (toUnit (items ! i) i) = Value (Num x) \<and> x > 500))
        \<and> (type (ts ! i) = ''General Repair''
             \<longleftrightarrow> \<not> (\<exists>x. pricePerSqft (toUnit (items ! i) i) = Value (Num x) \<and> x > 500)))"
proof -
  let ?units = "map_index toUnit 0 (take 50 items)"
  let ?ts = "map_index (make_task now) 0 ?units"
  have sent: "tasks_handler now (Array items) = Sent ?ts"
    by (simp add: tasks_handler_def)
  have len: "length ?ts = min 50 (length items)"
    by (simp add: length_map_index min.commute)
  have each: "?ts ! i = make_task now (toUnit (items ! i) i) i" if "i < length ?ts" for i
    using that by (simp add: length_map_index nth_map_index)
  have high: "greater p 900000 \<longleftrightarrow> (\<exists>x. p = Some x \<and> x > 900000)" for p
    by (cases p) (simp_all add: greater_def)
  have inspect: "truthy_number q \<and> (case q of Null \<Rightarrow> False | Value x \<Rightarrow> greater_number x 500)
      \<longleftrightarrow> (\<exists>x. q = Value (Num x) \<and> x > 500)" for q
  proof (cases q)
    case Null
    then show ?thesis by (simp add: truthy_number_def)
  next
    case (Value n)
    then show ?thesis by (cases n) (auto simp: truthy_number_def greater_number_def)
  qed
  have "\<forall>i < length ?ts.
          task.unitId (?ts ! i) = unit_entity.unitId (toUnit (items ! i) i)
        \<and> taskId (?ts ! i) = ''MT-'' @ decimal (i + 1)
        \<and> (task.status (?ts ! i) = ''In Progress'' \<longleftrightarrow> i mod 3 = 0)
        \<and> (task.status (?ts ! i) = ''Open'' \<longleftrightarrow> i mod 3 \<noteq> 0)
        \<and> (priority (?ts ! i) = ''High''
             \<longleftrightarrow> (\<exists>p. price (toUnit (items ! i) i) = Some p \<and> p > 900000))
        \<and> (priority (?ts ! i) = ''Normal''
             \<longleftrightarrow> \<not> (\<exists>p. price (toUnit (items ! i) i) = Some p \<and> p > 900000))
        \<and> (type (?ts ! i) = ''Inspection''
             \<longleftrightarrow> (\<exists>x. pricePerSqft (toUnit (items ! i) i) = Value (Num x) \<and> x > 500))
        \<and> (type (?ts ! i) = ''General Repair''
             \<longleftrightarrow> \<not> (\<exists>x. pricePerSqft (toUnit (items ! i) i) = Value (Num x) \<and> x > 500))"
    by (simp add: each make_task_def high inspect)
  with sent len show ?thesis by blast
qed

theorem tasks_handler_fields_witness:
  "\<exists>ts. tasks_handler (\<lambda>k. 1000)
          (Array [listing None (Some 950000) (Some 1000) None, listing None None None None]) = Sent ts
     \<and> length ts = 2
     \<and> task.status (ts ! 0) = ''In Progress''
     \<and> priority (ts ! 0) = ''High''
     \<and> type (ts ! 0) = ''Inspection''
     \<and> task.status (ts ! 1) = ''Open''
     \<and> priority (ts ! 1) = ''Normal''
     \<and> type (ts ! 1) = ''General Repair''"
  using tasks_handler_fields
      [of "\<lambda>k. 1000" "[listing None (Some 950000) (Some 1000) None, listing None None None None]"]
  apply (elim exE conjE)
  subgoal for ts
    apply (rule exI [of _ ts])
    apply (frule spec [of _ 0])
    apply (drule spec [of _ 1])
    apply (simp add: toUnit_def divide_by_def ToNumber_def)
    done
  done

section \<open>Inventory\<close>

text \<open>\<open>str_includes\<close> is the substring test.\<close>

lemma is_prefix_iff: "is_prefix t s \<longleftrightarrow> (\<exists>post. s = t @ post)"
  by (induction t s rule: is_prefix.induct) auto

lemma str_includes_iff: "str_includes s t \<longleftrightarrow> (\<exists>pre post. s = pre @ t @ post)"
proof (induction s)
  case Nil
  then show ?case by simp
next
  case (Cons c s)
  show ?case
  proof
    assume "str_includes (c # s) t"
    then consider "is_prefix t (c # s)" | "str_includes s t" by auto
    then show "\<exists>pre post. c # s = pre @ t @ post"
    proof cases
      case 1
      then obtain post where "c # s = t @ post" by (auto simp: is_prefix_iff)
      then have "c # s = [] @ t @ post" by simp
      then show ?thesis by blast
    next
      case 2
      then obtain pre post where "s = pre @ t @ post" using Cons.IH by auto
      then have "c # s = (c # pre) @ t @ post" by simp
      then show ?thesis by blast
    qed
  next
    assume "\<exists>pre post. c # s = pre @ t @ post"
    then obtain pre post where eq: "c # s = pre @ t @ post" by auto
    show "str_includes (c # s) t"
    proof (cases pre)
      case Nil
      then have "is_prefix t (c # s)" using eq by (auto simp: is_prefix_iff)
      then show ?thesis by simp
    next
      case (Cons d pre')
      then have "s = pre' @ t @ post" using eq by simp
      then have "str_includes s t" using Cons.IH by blast
      then show ?thesis by simp
    qed
  qed
qed

lemma area_matches_total:
  "a \<noteq> [] \<Longrightarrow>
   area_matches (QString a) u =
     Inr (case unit_entity.subLocality u of
            None \<Rightarrow> False
          | Some s \<Rightarrow> str_includes (toLowerCase s) (toLowerCase a))"
  by (cases "unit_entity.subLocality u")
    (auto simp: area_matches_def truthy_string_def call_toLowerCase_def toLowerCase_def)

lemma filter_throwing_total:
  "(\<And>x. p x = Inr (q x)) \<Longrightarrow> filter_throwing p xs = Inr (filter q xs)"
  by (induction xs) simp_all

lemma filter_throwing_area:
  "a \<noteq> [] \<Longrightarrow>
   filter_throwing (area_matches (QString a)) us =
     Inr (filter (\<lambda>u. case unit_entity.subLocality u of
                        None \<Rightarrow> False
                      | Some s \<Rightarrow> str_includes (toLowerCase s) (toLowerCase a)) us)"
  by (rule filter_throwing_total) (rule area_matches_total)






text \<open>
  The area values left out above: on a repeated or bracketed area parameter the call of
  \<^verbatim>\<open>toLowerCase\<close> throws at the first unit that has a sub-locality, and the reply is the
  status 500; the status value of the same shape is converted with \<^verbatim>\<open>String\<close> first.
\<close>

lemma properties_repeated_area:
  "properties_handler (Array [listing (Some ''Quebec'') (Some 100) None None]) None
     (Some (QArray [QString ''que'', QString ''bec''])) = Failed
   \<and> properties_handler (Array [listing (Some ''Quebec'') (Some 100) None None]) None
     (Some (QObject [(''k'', QString ''que'')])) = Failed"
  by code_simp

text \<open>
  C9. Whenever a non-empty area parameter is given, the inventory handler replies (it
  does not throw), no unit of the reply lacks a sub-locality, so every unit whose raw
  record has none is excluded, and on such a unit the area test yields \<open>false\<close> without
  reaching the call of \<^verbatim>\<open>toLowerCase\<close> that would throw on \<^verbatim>\<open>undefined\<close>; the
  test yields \<open>false\<close> on such a unit whatever the area value is, also one that is not a
  text.
\<close>

theorem area_filter_guard:
  assumes "a \<noteq> []"
  shows "(\<exists>us. properties_handler (Array items) statusParam (Some (QString a)) = Sent us
            \<and> (\<forall>u \<in> set us. unit_entity.subLocality u \<noteq> None)
            \<and> (\<forall>i < length items. SUBLOCALITY (items ! i) = None
                  \<longrightarrow> toUnit (items ! i) i \<notin> set us))
       \<and> (\<forall>u. unit_entity.subLocality u = None \<longrightarrow> area_matches (QString a) u = Inr False)
       \<and> (\<forall>q u. unit_entity.subLocality u = None \<longrightarrow> area_matches q u = Inr False)"
proof -
  let ?units = "case statusParam of
                  None \<Rightarrow> map_index toUnit 0 items
                | Some q \<Rightarrow> if truthy_query q
                            then filter (status_matches q) (map_index toUnit 0 items)
                            else map_index toUnit 0 items"
  let ?kept = "filter (\<lambda>u. case unit_entity.subLocality u of
                             None \<Rightarrow> False
                           | Some s \<Rightarrow> str_includes (toLowerCase s) (toLowerCase a)) ?units"
  have sent: "properties_handler (Array items) statusParam (Some (QString a)) =
      Sent (take 200 ?kept)"
    using assms by (simp add: properties_handler_def Let_def filter_throwing_area)
  have present: "\<forall>u \<in> set (take 200 ?kept). unit_entity.subLocality u \<noteq> None"
  proof
    fix u assume "u \<in> set (take 200 ?kept)"
    then have "u \<in> set ?kept" by (rule in_set_takeD)
    then show "unit_entity.subLocality u \<noteq> None" by (auto split: option.splits)
  qed
  have excluded: "\<forall>i < length items. SUBLOCALITY (items ! i) = None
      \<longrightarrow> toUnit (items ! i) i \<notin> set (take 200 ?kept)"
  proof (intro allI impI)
    fix i assume "i < length items" and none: "SUBLOCALITY (items ! i) = None"
    then have "unit_entity.subLocality (toUnit (items ! i) i) = None"
      by (simp add: toUnit_def)
    then show "toUnit (items ! i) i \<notin> set (take 200 ?kept)" using present by blast
  qed
  have guard: "\<forall>q u. unit_entity.subLocality u = None \<longrightarrow> area_matches q u = Inr False"
    by (simp add: area_matches_def truthy_string_def)
  from sent present excluded guard show ?thesis by blast
qed

theorem area_filter_guard_witness:
  "''que'' \<noteq> []
   \<and> properties_handler
       (Array [listing None (Some 100) None None, listing (Some ''Queens'') (Some 200) None None])
       None (Some (QString ''que'')) =
     Sent [toUnit (listing (Some ''Queens'') (Some 200) None None) 1]
   \<and> toUnit (listing None (Some 100) None None) 0
       \<notin> set [toUnit (listing (Some ''Queens'') (Some 200) None None) 1]
   \<and> area_matches (QString ''que'') (toUnit (listing None (Some 100) None None) 0) = Inr False
   \<and> area_matches (QArray [QString ''que'', QString ''bec''])
       (toUnit (listing None (Some 100) None None) 0) = Inr False"
proof -
  have nonempty: "''que'' \<noteq> []" by simp
  have reply: "properties_handler
       (Array [listing None (Some 100) None None, listing (Some ''Queens'') (Some 200) None None])
       None (Some (QString ''que'')) =
     Sent [toUnit (listing (Some ''Queens'') (Some 200) None None) 1]"
    by code_simp
  have absent: "unit_entity.subLocality (toUnit (listing None (Some 100) None None) 0) = None"
    by (simp add: toUnit_def)
  note guard = area_filter_guard [OF nonempty,
      of "[listing None (Some 100) None None, listing (Some ''Queens'') (Some 200) None None]" None]
  from guard have every:
    "\<forall>q u. unit_entity.subLocality u = None \<longrightarrow> area_matches q u = Inr False"
    by (elim conjE)
  from every absent have
    "area_matches (QString ''que'') (toUnit (listing None (Some 100) None None) 0) = Inr False"
    "area_matches (QArray [QString ''que'', QString ''bec''])
       (toUnit (listing None (Some 100) None None) 0) = Inr False"
    by blast+
  moreover from guard reply have
    "toUnit (listing None (Some 100) None None) 0
       \<notin> set [toUnit (listing (Some ''Queens'') (Some 200) None None) 1]"
    by (simp add: toUnit_def)
  ultimately show ?thesis using nonempty reply by blast
qed

section \<open>Area aggregates\<close>

text \<open>
  What \<^verbatim>\<open>areaMap\<close> holds after the loop: one own property for every area that has a unit
  and whose name is not a name inherited from \<^verbatim>\<open>Object.prototype\<close>, with the totals of
  that area's units.
\<close>

lemma area_name_or_string: "or_string (unit_entity.subLocality u) ''Unknown'' = area_name u"
  by (simp add: or_string_def area_name_def)

lemma map_of_update_entry:
  "map_of (update_entry a f m) k = (if k = a then map_option f (map_of m a) else map_of m k)"
  by (induction m) (auto simp: update_entry_def)

lemma keys_update_entry: "map fst (update_entry a f m) = map fst m"
  by (induction m) (auto simp: update_entry_def)

lemma map_of_snoc:
  "map_of (m @ [(a, v)]) k =
     (case map_of m k of Some e \<Rightarrow> Some e | None \<Rightarrow> if k = a then Some v else None)"
  by (induction m) (auto simp del: map_of_append)

lemma map_of_add_unit:
  "map_of (add_unit m u) k =
     (if k = area_name u
      then (case map_of m k of
              Some e \<Rightarrow>
                Some (e\<lparr>area_total.totalPrice := area_total.totalPrice e + price_or_zero u,
                        area_total.count := area_total.count e + 1\<rparr>)
            | None \<Rightarrow>
                if k \<in> set Object_prototype_keys then None
                else Some \<lparr>area_total.name = k, area_total.totalPrice = price_or_zero u, area_total.count = 1\<rparr>)
      else map_of m k)"
  by (auto simp: add_unit_def Let_def area_name_or_string get_property_def or_zero_price
      map_of_update_entry map_of_snoc simp del: map_of_append split: option.splits)

lemma distinct_add_unit:
  "distinct (map fst m) \<Longrightarrow> distinct (map fst (add_unit m u))"
  by (auto simp: add_unit_def Let_def get_property_def keys_update_entry map_of_eq_None_iff
      split: option.splits)

lemma distinct_areaMap: "distinct (map fst (foldl add_unit [] units))"
proof (induction units rule: rev_induct)
  case Nil
  then show ?case by simp
next
  case (snoc u units)
  then show ?case by (simp add: distinct_add_unit)
qed

lemma units_in_snoc:
  "units_in a (units @ [u]) = (if area_name u = a then units_in a units @ [u] else units_in a units)"
  by (simp add: units_in_def)

lemma map_of_areaMap:
  "map_of (foldl add_unit [] units) k =
     (if k \<in> set Object_prototype_keys \<or> units_in k units = [] then None
      else Some (group_total k units))"
proof (induction units rule: rev_induct)
  case Nil
  then show ?case by (simp add: units_in_def)
next
  case (snoc u units)
  show ?case
  proof (cases "k = area_name u")
    case False
    then show ?thesis
      using snoc by (simp add: map_of_add_unit units_in_snoc group_total_def)
  next
    case True
    then show ?thesis
      using snoc by (simp add: map_of_add_unit units_in_snoc group_total_def)
  qed
qed

lemma areaMap_entries:
  "(k, t) \<in> set (foldl add_unit [] units) \<longleftrightarrow>
     k \<notin> set Object_prototype_keys \<and> units_in k units \<noteq> [] \<and> t = group_total k units"
proof -
  have "(k, t) \<in> set (foldl add_unit [] units) \<longleftrightarrow> map_of (foldl add_unit [] units) k = Some t"
    using distinct_areaMap [of units] by simp
  then show ?thesis by (auto simp: map_of_areaMap)
qed

lemma set_Object_values: "set (Object_values obj) = snd ` set obj"
  by (auto simp: Object_values_def)

lemma by_area_entry:
  assumes "e \<in> set (by_area units)"
  shows "\<exists>k. k \<notin> set Object_prototype_keys \<and> units_in k units \<noteq> []
            \<and> e = area_summary (group_total k units)"
proof -
  from assms have "e \<in> set (sort_key (\<lambda>e. - int (area_entry.count e))
      (map area_summary (Object_values (foldl add_unit [] units))))"
    unfolding by_area_def by (rule in_set_takeD)
  then have "e \<in> area_summary ` snd ` set (foldl add_unit [] units)"
    by (simp add: set_Object_values)
  then obtain k t where "(k, t) \<in> set (foldl add_unit [] units)" and "e = area_summary t"
    by auto
  then show ?thesis by (auto simp: areaMap_entries)
qed

lemma area_summary_group:
  "units_in k units \<noteq> [] \<Longrightarrow>
   area_summary (group_total k units) =
     \<lparr>area_entry.name = k,
      avgPrice = Math_round (sum_list (map price_or_zero (units_in k units))
                              / real (length (units_in k units))),
      count = length (units_in k units)\<rparr>"
  by (simp add: area_summary_def group_total_def)

lemma by_area_entry_fields:
  assumes "e \<in> set (by_area units)"
  shows "area_entry.count e = length (units_in (area_entry.name e) units)"
    and "0 < area_entry.count e"
    and "area_entry.avgPrice e =
           Math_round (sum_list (map price_or_zero (units_in (area_entry.name e) units))
                        / real (length (units_in (area_entry.name e) units)))"
    and "area_entry.name e \<notin> set Object_prototype_keys"
proof -
  from by_area_entry [OF assms] obtain k where k: "k \<notin> set Object_prototype_keys"
    "units_in k units \<noteq> []" "e = area_summary (group_total k units)" by blast
  then have e: "e = \<lparr>area_entry.name = k,
      avgPrice = Math_round (sum_list (map price_or_zero (units_in k units))
                              / real (length (units_in k units))),
      count = length (units_in k units)\<rparr>"
    by (simp add: area_summary_group)
  show "area_entry.count e = length (units_in (area_entry.name e) units)" by (simp add: e)
  show "0 < area_entry.count e" using k(2) by (simp add: e)
  show "area_entry.avgPrice e =
           Math_round (sum_list (map price_or_zero (units_in (area_entry.name e) units))
                        / real (length (units_in (area_entry.name e) units)))"
    by (simp add: e)
  show "area_entry.name e \<notin> set Object_prototype_keys" using k(1) by (simp add: e)
qed

lemma by_area_length: "length (by_area units) \<le> 10"
  by (simp add: by_area_def)

lemma by_area_sorted:
  "sorted_wrt (\<lambda>a b. area_entry.count b \<le> area_entry.count a) (by_area units)"
proof -
  let ?xs = "sort_key (\<lambda>e. - int (area_entry.count e))
      (map area_summary (Object_values (foldl add_unit [] units)))"
  have "sorted (map (\<lambda>e. - int (area_entry.count e)) ?xs)" by (rule sorted_sort_key)
  then have "sorted_wrt (\<lambda>a b. - int (area_entry.count a) \<le> - int (area_entry.count b)) ?xs"
    by (simp add: sorted_map)
  then have "sorted_wrt (\<lambda>a b. area_entry.count b \<le> area_entry.count a) ?xs" by simp
  then show ?thesis unfolding by_area_def by (rule sorted_wrt_take)
qed

lemma byArea_overview:
  "byArea (overview_handler d) =
     (if dataset_records d = [] then [] else by_area (map_index toUnit 0 (dataset_records d)))"
  by (cases d) (simp_all add: overview_handler_def dataset_records_def Let_def)

lemma avgPrice_overview:
  "overview.avgPrice (overview_handler d) =
     (if dataset_records d = [] then 0
      else sum_list (map price_or_zero (map_index toUnit 0 (dataset_records d)))
             / real (length (dataset_records d)))"
  by (cases d)
    (simp_all add: overview_handler_def dataset_records_def Let_def total_value_def
      or_zero_price foldl_plus length_map_index)

lemma Math_round_integer: "Math_round x \<in> \<int>"
  by (simp add: Math_round_def)

lemma distinct_keys_Object_values_order:
  assumes "distinct (map fst obj)"
  shows "distinct (map fst
           (sort_key (\<lambda>(k, v). numeric_value k) (filter (\<lambda>(k, v). is_array_index k) obj)
            @ filter (\<lambda>(k, v). \<not> is_array_index k) obj))"
proof -
  define z where "z =
     sort_key (\<lambda>(k, v). numeric_value k) (filter (\<lambda>(k, v). is_array_index k) obj)
     @ filter (\<lambda>(k, v). \<not> is_array_index k) obj"
  from assms have d: "distinct obj" and inj: "inj_on fst (set obj)"
    by (simp_all add: distinct_map)
  have dz: "distinct z" unfolding z_def using d by auto
  have sz: "set z = set obj" unfolding z_def by auto
  have "distinct z \<and> inj_on fst (set z)" using dz inj sz by simp
  then have "distinct (map fst z)" by (simp only: distinct_map)
  then show ?thesis unfolding z_def .
qed

lemma by_area_names_distinct: "distinct (map area_entry.name (by_area units))"
proof -
  let ?m = "foldl add_unit [] units"
  let ?z = "sort_key (\<lambda>(k, v). numeric_value k) (filter (\<lambda>(k, v). is_array_index k) ?m)
            @ filter (\<lambda>(k, v). \<not> is_array_index k) ?m"
  let ?x = "map area_summary (Object_values ?m)"
  have z: "distinct (map fst ?z)"
    by (rule distinct_keys_Object_values_order) (rule distinct_areaMap)
  have "set ?z = set ?m" by auto
  then have "\<forall>p \<in> set ?z. area_entry.name (area_summary (snd p)) = fst p"
    by (auto simp: areaMap_entries area_summary_def group_total_def)
  then have "map area_entry.name ?x = map fst ?z"
    unfolding Object_values_def by (simp only: map_map) (rule map_cong, simp_all)
  with z have x: "distinct (map area_entry.name ?x)" by simp
  define xs where "xs = ?x"
  have "distinct xs \<and> inj_on area_entry.name (set xs)"
    using x unfolding xs_def [symmetric] by (simp only: distinct_map)
  then have "distinct (sort_key (\<lambda>e. - int (area_entry.count e)) xs)
      \<and> inj_on area_entry.name (set (sort_key (\<lambda>e. - int (area_entry.count e)) xs))"
    by simp
  then have "distinct (map area_entry.name (sort_key (\<lambda>e. - int (area_entry.count e)) xs))"
    by (simp only: distinct_map)
  then have "distinct (take 10 (map area_entry.name (sort_key (\<lambda>e. - int (area_entry.count e)) xs)))"
    by (rule distinct_take)
  then show ?thesis by (simp add: by_area_def take_map xs_def)
qed

text \<open>
  C3 at a dataset whose only record has the sub-locality \<open>constructor\<close>. The unit belongs
  to the group of that name, but \<^verbatim>\<open>areaMap['constructor']\<close> is the inherited constructor
  function, which is truthy: no entry is created, and \<open>byArea\<close> is empty although there
  is one unit. The parts of C3 that hold for every dataset are \<open>by_area_length\<close> (at most
  ten entries), \<open>by_area_sorted\<close> (descending count), \<open>by_area_names_distinct\<close> and
  \<open>by_area_entry_fields\<close> (each entry counts the units of its area).
\<close>

theorem by_area_inherited_name_dropped:
  "overview_handler (Array [listing (Some ''constructor'') (Some 100) None None]) =
     \<lparr>totalValue = 100, unitCount = 1, avgPrice = 100, byArea = []\<rparr>"
  by code_simp

text \<open>
  C10. In the overview, the \<open>avgPrice\<close> of each \<open>byArea\<close> entry is \<^verbatim>\<open>Math.round\<close> of the
  sum of that area's prices (an absent price counting as zero) divided by the number of
  its units, hence an integer, while the top-level \<open>avgPrice\<close> is the quotient
  \<open>totalValue / unitCount\<close>, not rounded; for two units of one area with prices 1 and 2
  the first figure is 2 and the second 3/2.
\<close>

theorem area_average_rounded:
  "(\<forall>e \<in> set (byArea (overview_handler d)).
       area_entry.avgPrice e =
         Math_round
           (sum_list (map price_or_zero
              (units_in (area_entry.name e) (map_index toUnit 0 (dataset_records d))))
            / real (length (units_in (area_entry.name e) (map_index toUnit 0 (dataset_records d)))))
     \<and> area_entry.count e = length (units_in (area_entry.name e) (map_index toUnit 0 (dataset_records d)))
     \<and> area_entry.avgPrice e \<in> \<int>)
   \<and> overview.avgPrice (overview_handler d) =
       (if dataset_records d = [] then 0
        else sum_list (map price_or_zero (map_index toUnit 0 (dataset_records d)))
               / real (length (dataset_records d)))
   \<and> overview_handler (Array [listing None (Some 1) None None, listing None (Some 2) None None]) =
       \<lparr>totalValue = 3, unitCount = 2, avgPrice = 3 / 2,
        byArea = [\<lparr>area_entry.name = ''Unknown'', avgPrice = 2, count = 2\<rparr>]\<rparr>"
proof -
  have entries: "\<forall>e \<in> set (byArea (overview_handler d)).
       area_entry.avgPrice e =
         Math_round
           (sum_list (map price_or_zero
              (units_in (area_entry.name e) (map_index toUnit 0 (dataset_records d))))
            / real (length (units_in (area_entry.name e) (map_index toUnit 0 (dataset_records d)))))
     \<and> area_entry.count e = length (units_in (area_entry.name e) (map_index toUnit 0 (dataset_records d)))
     \<and> area_entry.avgPrice e \<in> \<int>"
  proof
    fix e assume "e \<in> set (byArea (overview_handler d))"
    then have mem: "e \<in> set (by_area (map_index toUnit 0 (dataset_records d)))"
      by (simp add: byArea_overview split: if_splits)
    have "area_entry.avgPrice e \<in> \<int>"
      using by_area_entry_fields(3) [OF mem] Math_round_integer by simp
    then show "area_entry.avgPrice e =
         Math_round
           (sum_list (map price_or_zero
              (units_in (area_entry.name e) (map_index toUnit 0 (dataset_records d))))
            / real (length (units_in (area_entry.name e) (map_index toUnit 0 (dataset_records d)))))
     \<and> area_entry.count e = length (units_in (area_entry.name e) (map_index toUnit 0 (dataset_records d)))
     \<and> area_entry.avgPrice e \<in> \<int>"
      using by_area_entry_fields(1,3) [OF mem] by blast
  qed
  have example: "overview_handler (Array [listing None (Some 1) None None, listing None (Some 2) None None]) =
       \<lparr>totalValue = 3, unitCount = 2, avgPrice = 3 / 2,
        byArea = [\<lparr>area_entry.name = ''Unknown'', avgPrice = 2, count = 2\<rparr>]\<rparr>"
    by code_simp
  from entries avgPrice_overview [of d] example show ?thesis by blast
qed

theorem area_average_rounded_witness:
  "\<lparr>area_entry.name = ''Unknown'', avgPrice = 2, count = 2\<rparr>
     \<in> set (byArea (overview_handler
                (Array [listing None (Some 1) None None, listing None (Some 2) None None])))
   \<and> area_entry.avgPrice \<lparr>area_entry.name = ''Unknown'', avgPrice = 2, count = 2\<rparr> =
       Math_round
         (sum_list (map price_or_zero
            (units_in ''Unknown''
               (map_index toUnit 0 [listing None (Some 1) None None, listing None (Some 2) None None])))
          / real (length
            (units_in ''Unknown''
               (map_index toUnit 0 [listing None (Some 1) None None, listing None (Some 2) None None]))))
   \<and> overview.avgPrice (overview_handler
         (Array [listing None (Some 1) None None, listing None (Some 2) None None])) = 3 / 2"
proof -
  have mem: "\<lparr>area_entry.name = ''Unknown'', avgPrice = 2, count = 2\<rparr>
     \<in> set (byArea (overview_handler
                (Array [listing None (Some 1) None None, listing None (Some 2) None None])))"
    by code_simp
  have top: "overview.avgPrice (overview_handler
         (Array [listing None (Some 1) None None, listing None (Some 2) None None])) = 3 / 2"
    by code_simp
  note entry = area_average_rounded
      [of "Array [listing None (Some 1) None None, listing None (Some 2) None None]",
       THEN conjunct1, THEN bspec, OF mem, THEN conjunct1]
  from entry mem top show ?thesis by (simp add: dataset_records_def)
qed

end
